theory Spec2Isabelle
  imports Complex_Main "HOL-Library.Word"
begin

section \<open>JavaScript values\<close>

text \<open>
  A JavaScript string is a sequence of 16-bit code units. ASCII literals of the source are
  written with \<open>ascii\<close>; the Chinese labels of the describer are given by their code
  units. A rejected promise or a thrown exception is the \<open>Inl\<close> branch of a sum.
\<close>

type_synonym jstring = "16 word list"

definition ascii :: "string \<Rightarrow> jstring" where
  "ascii s = map of_char s"

datatype js_error = TypeError | RequestFailed

text \<open>A JavaScript number: the two cases that are not finite, and the finite values.\<close>

datatype jsnum = NaN | PosInfinity | NegInfinity | Finite real

text \<open>
  \<open>String.prototype.trim\<close> removes white space and line terminators from both ends:
  TAB, LF, VT, FF, CR, SP, NBSP, U+1680, U+2000 to U+200A, U+2028, U+2029, U+202F, U+205F,
  U+3000 and U+FEFF.
\<close>

definition isWhiteSpace :: "16 word \<Rightarrow> bool" where
  "isWhiteSpace c \<longleftrightarrow>
     c = 0x9 \<or> c = 0xA \<or> c = 0xB \<or> c = 0xC \<or> c = 0xD \<or> c = 0x20 \<or> c = 0xA0 \<or>
     c = 0x1680 \<or> (0x2000 \<le> c \<and> c \<le> 0x200A) \<or> c = 0x2028 \<or> c = 0x2029 \<or>
     c = 0x202F \<or> c = 0x205F \<or> c = 0x3000 \<or> c = 0xFEFF"

definition trim :: "jstring \<Rightarrow> jstring" where
  "trim s = rev (dropWhile isWhiteSpace (rev (dropWhile isWhiteSpace s)))"

text \<open>
  \<open>s.includes(sep)\<close>, and \<open>s.split(sep)[0]\<close> for a separator that is not empty: the part
  of \<open>s\<close> before the first occurrence of \<open>sep\<close>, or all of \<open>s\<close> when there is none.
\<close>

fun str_includes :: "jstring \<Rightarrow> jstring \<Rightarrow> bool" where
  "str_includes [] sep = (sep = [])"
| "str_includes (c # cs) sep = (take (length sep) (c # cs) = sep \<or> str_includes cs sep)"

fun split_first :: "jstring \<Rightarrow> jstring \<Rightarrow> jstring" where
  "split_first [] sep = []"
| "split_first (c # cs) sep =
     (if take (length sep) (c # cs) = sep then [] else c # split_first cs sep)"

text \<open>
  A string or undefined \<open>v\<close> with the empty string as its default, which is also how
  \<open>Array.prototype.join\<close> renders such an element; and the conversion in a template
  literal, where undefined becomes the text \<open>undefined\<close>.
\<close>

definition or_empty :: "jstring option \<Rightarrow> jstring" where
  "or_empty v = (case v of None \<Rightarrow> [] | Some s \<Rightarrow> s)"

definition interpolate :: "jstring option \<Rightarrow> jstring" where
  "interpolate v = (case v of None \<Rightarrow> ascii ''undefined'' | Some s \<Rightarrow> s)"

section \<open>The message describer\<close>

subsection \<open>Telegram messages\<close>

text \<open>
  An optional property of a message object is an \<open>option\<close>: \<open>'key' in message\<close> holds
  exactly when the field is \<open>Some\<close>. Only the properties the describer reads are kept; a
  media object whose content is never read is \<open>unit\<close>. The fields \<open>from\<close>, \<open>text\<close> and
  \<open>value\<close> of the source are \<open>message_from\<close>, \<open>message_text\<close> and \<open>dice_value\<close> here.
  A replied-to message is a message without a \<open>reply_to_message\<close> of its own.
\<close>

record User =
  first_name :: "jstring option"
  last_name :: "jstring option"
  username :: "jstring option"

record Document =
  file_name :: "jstring option"

record Sticker =
  set_name :: "jstring option"

record Voice =
  duration :: jsnum

record Contact =
  contact_first_name :: jstring
  contact_last_name :: "jstring option"

record Dice =
  emoji :: jstring
  dice_value :: jsnum

record Poll =
  question :: jstring

record Location =
  latitude :: jsnum
  longitude :: jsnum

record Venue =
  title :: jstring

record ReplyMessage =
  message_from :: "User option"
  message_text :: "jstring option"
  caption :: "jstring option"
  forward_from :: "User option"
  via_bot :: "User option"
  audio :: "unit option"
  document :: "Document option"
  animation :: "unit option"
  photo :: "unit option"
  sticker :: "Sticker option"
  video :: "unit option"
  video_note :: "unit option"
  voice :: "Voice option"
  contact :: "Contact option"
  dice :: "Dice option"
  game :: "unit option"
  poll :: "Poll option"
  location :: "Location option"
  venue :: "Venue option"

record Message = ReplyMessage +
  reply_to_message :: "ReplyMessage option"

record IBot =
  botInfo :: "User option"

subsection \<open>Formatting users\<close>

definition formatUser :: "User \<Rightarrow> jstring option" where
  "formatUser user =
     (let name = trim (or_empty (first_name user) @ ascii '' '' @ or_empty (last_name user))
      in if name \<noteq> [] then Some name else username user)"

definition tryExtractUserFromMessage :: "IBot \<Rightarrow> 'a ReplyMessage_scheme \<Rightarrow> js_error + jstring option" where
  "tryExtractUserFromMessage ibot message =
     (case message_from message of
        None \<Rightarrow> Inr (Some [])
      | Some sender \<Rightarrow>
          (case botInfo ibot of
             None \<Rightarrow> Inl TypeError
           | Some info \<Rightarrow>
               if username sender = username info then
                 (case message_text message of
                    None \<Rightarrow> Inl TypeError
                  | Some t \<Rightarrow>
                      if str_includes t (ascii '': '') then Inr (Some (split_first t (ascii '': '')))
                      else Inr (formatUser sender))
               else Inr (formatUser sender)))"

subsection \<open>Describing one property\<close>

text \<open>
  A descriptor is a fixed label or a function of the property's value; the function yields
  a string or a promise of one. \<open>tryDescribe\<close> brackets a label and the value of a promise,
  and hands back any other result of the function as it is. \<open>await\<close> of a string is the
  string; an array element that is a promise would be joined as \<open>[object Promise]\<close>.
\<close>

datatype described = Str jstring | Promise "js_error + jstring"

datatype 'e descriptor = Label jstring | Func "'e \<Rightarrow> described"

definition bracket :: "jstring \<Rightarrow> jstring" where
  "bracket str = ascii ''['' @ str @ ascii ''] ''"

definition tryDescribe :: "'e option \<Rightarrow> 'e descriptor \<Rightarrow> described" where
  "tryDescribe field d =
     (case field of
        None \<Rightarrow> Str []
      | Some entity \<Rightarrow>
          (case d of
             Label l \<Rightarrow> Str (bracket l)
           | Func f \<Rightarrow>
               (case f entity of
                  Str result \<Rightarrow> Str result
                | Promise p \<Rightarrow> Promise (map_sum id bracket p))))"

definition await :: "described \<Rightarrow> js_error + jstring" where
  "await v = (case v of Str s \<Rightarrow> Inr s | Promise p \<Rightarrow> p)"

definition element :: "described \<Rightarrow> jstring" where
  "element v = (case v of Str s \<Rightarrow> s | Promise p \<Rightarrow> ascii ''[object Promise]'')"

subsection \<open>The parts of the description\<close>

text \<open>
  The three awaited context fragments, in the order of the array literal. The forward
  fragment names the sender of the message itself, as the source does.
\<close>

definition describeForward :: "IBot \<Rightarrow> Message \<Rightarrow> js_error + jstring" where
  "describeForward ibot message =
     await (tryDescribe (forward_from message)
       (Func (\<lambda>_. Promise (map_sum id (\<lambda>name. [0x8F6C, 0x53D1, 0x81EA, 0xFF1A] @ interpolate name)
                               (tryExtractUserFromMessage ibot message)))))"

definition describeReply :: "IBot \<Rightarrow> Message \<Rightarrow> js_error + jstring" where
  "describeReply ibot message =
     await (tryDescribe (reply_to_message message)
       (Func (\<lambda>repliedMessage.
          Promise (map_sum id (\<lambda>name. [0x56DE, 0x590D, 0x7ED9, 0xFF1A] @ interpolate name)
                     (tryExtractUserFromMessage ibot repliedMessage)))))"

definition describeViaBot :: "Message \<Rightarrow> js_error + jstring" where
  "describeViaBot message =
     await (tryDescribe (via_bot message)
       (Func (\<lambda>viaBot. Promise (Inr ([0x53D1, 0x9001, 0x81EA, 0xFF1A] @ interpolate (formatUser viaBot))))))"

text \<open>
  The fourteen media entries of the array literal, in their order. \<open>numToString\<close> is the
  conversion of a number in a template literal.
\<close>

datatype media_kind =
    AudioKind | DocumentKind | AnimationKind | PhotoKind | StickerKind | VideoKind
  | VideoNoteKind | VoiceKind | ContactKind | DiceKind | GameKind | PollKind
  | LocationKind | VenueKind

definition mediaKinds :: "media_kind list" where
  "mediaKinds =
     [AudioKind, DocumentKind, AnimationKind, PhotoKind, StickerKind, VideoKind, VideoNoteKind,
      VoiceKind, ContactKind, DiceKind, GameKind, PollKind, LocationKind, VenueKind]"

fun describeKind :: "(jsnum \<Rightarrow> jstring) \<Rightarrow> Message \<Rightarrow> media_kind \<Rightarrow> described" where
  "describeKind numToString message AudioKind =
     tryDescribe (audio message) (Label [0x97F3, 0x9891])"
| "describeKind numToString message DocumentKind =
     tryDescribe (document message)
       (Func (\<lambda>file. Str ([0x6587, 0x4EF6, 0xFF1A] @
          (case file_name file of None \<Rightarrow> [0x672A, 0x77E5, 0x6587, 0x4EF6] | Some n \<Rightarrow> n))))"
| "describeKind numToString message AnimationKind =
     tryDescribe (animation message) (Label (ascii ''GIF''))"
| "describeKind numToString message PhotoKind =
     tryDescribe (photo message) (Label [0x56FE, 0x7247])"
| "describeKind numToString message StickerKind =
     tryDescribe (sticker message)
       (Func (\<lambda>sticker. Str ([0x8D34, 0x7EB8, 0xFF1A] @
          (case set_name sticker of None \<Rightarrow> [0x65E0, 0x8D34, 0x7EB8, 0x5305] | Some n \<Rightarrow> n))))"
| "describeKind numToString message VideoKind =
     tryDescribe (video message) (Label [0x89C6, 0x9891])"
| "describeKind numToString message VideoNoteKind =
     tryDescribe (video_note message) (Label [0x5373, 0x65F6, 0x89C6, 0x9891])"
| "describeKind numToString message VoiceKind =
     tryDescribe (voice message)
       (Func (\<lambda>voice. Str ([0x8BED, 0x97F3, 0xFF1A] @ numToString (duration voice) @ ascii ''s'')))"
| "describeKind numToString message ContactKind =
     tryDescribe (contact message)
       (Func (\<lambda>contact. Str ([0x8054, 0x7CFB, 0x4EBA] @ ascii '': '' @
          trim (contact_first_name contact @ ascii '' '' @
                (case contact_last_name contact of None \<Rightarrow> [] | Some n \<Rightarrow> n)))))"
| "describeKind numToString message DiceKind =
     tryDescribe (dice message)
       (Func (\<lambda>dice. Str ([0x9AB0, 0x5B50, 0xFF1A] @ emoji dice @ ascii '' - '' @
          [0x63B7, 0x51FA, 0x4E86] @ ascii '' '' @ numToString (dice_value dice) @
          ascii '' '' @ [0x70B9])))"
| "describeKind numToString message GameKind =
     tryDescribe (game message) (Label [0x5C0F, 0x6E38, 0x620F])"
| "describeKind numToString message PollKind =
     tryDescribe (poll message)
       (Func (\<lambda>poll. Str ([0x6295, 0x7968, 0xFF1A] @ question poll)))"
| "describeKind numToString message LocationKind =
     tryDescribe (location message)
       (Func (\<lambda>location. Str ([0x4F4D, 0x7F6E] @ ascii '': '' @ numToString (latitude location) @
          ascii '','' @ numToString (longitude location))))"
| "describeKind numToString message VenueKind =
     tryDescribe (venue message)
       (Func (\<lambda>venue. Str ([0x4F4D, 0x7F6E] @ ascii '': '' @ title venue)))"

definition describeMedia :: "(jsnum \<Rightarrow> jstring) \<Rightarrow> Message \<Rightarrow> described list" where
  "describeMedia numToString message = map (describeKind numToString message) mediaKinds"

definition describeBody :: "Message \<Rightarrow> jstring" where
  "describeBody message =
     (case message_text message of
        Some t \<Rightarrow> t
      | None \<Rightarrow> (case caption message of Some c \<Rightarrow> c | None \<Rightarrow> []))"

text \<open>
  The describer itself: the array literal is evaluated from left to right, the first
  rejected promise ends it, and the joined string is trimmed. The user formatter is a
  parameter; it yields a string or undefined, as \<open>formatUser\<close> does.
\<close>

definition emptyUser :: User where
  "emptyUser = \<lparr>first_name = None, last_name = None, username = None\<rparr>"

definition tryDescribeMessage ::
  "(jsnum \<Rightarrow> jstring) \<Rightarrow> Message \<Rightarrow> IBot \<Rightarrow> (User \<Rightarrow> jstring option) \<Rightarrow> js_error + jstring" where
  "tryDescribeMessage numToString message ibot userFormatter =
     (let sender = userFormatter (case message_from message of None \<Rightarrow> emptyUser | Some u \<Rightarrow> u)
      in case describeForward ibot message of
           Inl e \<Rightarrow> Inl e
         | Inr forwarded \<Rightarrow>
             (case describeReply ibot message of
                Inl e \<Rightarrow> Inl e
              | Inr replied \<Rightarrow>
                  (case describeViaBot message of
                     Inl e \<Rightarrow> Inl e
                   | Inr via \<Rightarrow>
                       Inr (trim (concat
                         ([or_empty sender, ascii '': '', forwarded, replied, via] @
                          map element (describeMedia numToString message) @
                          [describeBody message]))))))"

text \<open>
  Which media properties a message has, and the messages with no forward, reply, via-bot
  or media property at all.
\<close>

fun hasKind :: "Message \<Rightarrow> media_kind \<Rightarrow> bool" where
  "hasKind message AudioKind = (audio message \<noteq> None)"
| "hasKind message DocumentKind = (document message \<noteq> None)"
| "hasKind message AnimationKind = (animation message \<noteq> None)"
| "hasKind message PhotoKind = (photo message \<noteq> None)"
| "hasKind message StickerKind = (sticker message \<noteq> None)"
| "hasKind message VideoKind = (video message \<noteq> None)"
| "hasKind message VideoNoteKind = (video_note message \<noteq> None)"
| "hasKind message VoiceKind = (voice message \<noteq> None)"
| "hasKind message ContactKind = (contact message \<noteq> None)"
| "hasKind message DiceKind = (dice message \<noteq> None)"
| "hasKind message GameKind = (game message \<noteq> None)"
| "hasKind message PollKind = (poll message \<noteq> None)"
| "hasKind message LocationKind = (location message \<noteq> None)"
| "hasKind message VenueKind = (venue message \<noteq> None)"

definition noCapabilities :: "Message \<Rightarrow> bool" where
  "noCapabilities message \<longleftrightarrow>
     forward_from message = None \<and> reply_to_message message = None \<and> via_bot message = None \<and>
     list_all (\<lambda>k. \<not> hasKind message k) mediaKinds"

section \<open>Link and nickname store\<close>

text \<open>
  Both tables are created without a uniqueness constraint, so a table is the list of its
  rows in insertion order. \<open>db.get\<close> yields the first matching row or nothing,
  \<open>UPDATE ... WHERE\<close> rewrites every matching row and \<open>INSERT\<close> appends one row. The
  columns \<open>chat_id\<close> and \<open>user_id\<close> of the nickname table are \<open>nick_chat_id\<close> and
  \<open>nick_user_id\<close>.
\<close>

record link_row =
  chat_id :: jstring
  discord_channel_id :: jstring

record nick_row =
  nick_chat_id :: jstring
  nick_user_id :: jstring
  nickname :: jstring

record database =
  discord_link_v2 :: "link_row list"
  discord_nick :: "nick_row list"

definition create_tables :: database where
  "create_tables = \<lparr>discord_link_v2 = [], discord_nick = []\<rparr>"

definition setDiscordLink :: "jstring \<Rightarrow> jstring \<Rightarrow> database \<Rightarrow> database" where
  "setDiscordLink chatId discordChannelId db =
     (case find (\<lambda>r. chat_id r = chatId) (discord_link_v2 db) of
        Some exists \<Rightarrow>
          db\<lparr>discord_link_v2 :=
               map (\<lambda>r. if chat_id r = chatId then r\<lparr>discord_channel_id := discordChannelId\<rparr> else r)
                 (discord_link_v2 db)\<rparr>
      | None \<Rightarrow>
          db\<lparr>discord_link_v2 :=
               discord_link_v2 db @ [\<lparr>chat_id = chatId, discord_channel_id = discordChannelId\<rparr>]\<rparr>)"

definition setDiscordNickname :: "jstring \<Rightarrow> jstring \<Rightarrow> jstring \<Rightarrow> database \<Rightarrow> database" where
  "setDiscordNickname chatId userId nick db =
     (case find (\<lambda>r. nick_chat_id r = chatId \<and> nick_user_id r = userId) (discord_nick db) of
        Some exists \<Rightarrow>
          db\<lparr>discord_nick :=
               map (\<lambda>r. if nick_chat_id r = chatId \<and> nick_user_id r = userId
                          then r\<lparr>nickname := nick\<rparr> else r)
                 (discord_nick db)\<rparr>
      | None \<Rightarrow>
          db\<lparr>discord_nick :=
               discord_nick db @ [\<lparr>nick_chat_id = chatId, nick_user_id = userId, nickname = nick\<rparr>]\<rparr>)"

definition getDiscordNickname :: "jstring \<Rightarrow> jstring \<Rightarrow> database \<Rightarrow> jstring option" where
  "getDiscordNickname chatId userId db =
     (case find (\<lambda>r. nick_chat_id r = chatId \<and> nick_user_id r = userId) (discord_nick db) of
        None \<Rightarrow> None
      | Some result \<Rightarrow> Some (nickname result))"

text \<open>A history of writes to the store, run in order from the freshly created tables.\<close>

datatype store_call = SetDiscordLink jstring jstring | SetDiscordNickname jstring jstring jstring

fun run_call :: "store_call \<Rightarrow> database \<Rightarrow> database" where
  "run_call (SetDiscordLink c d) db = setDiscordLink c d db"
| "run_call (SetDiscordNickname c u n) db = setDiscordNickname c u n db"

fun run_calls :: "store_call list \<Rightarrow> database \<Rightarrow> database" where
  "run_calls [] db = db"
| "run_calls (x # xs) db = run_calls xs (run_call x db)"

definition link_rows_for :: "jstring \<Rightarrow> database \<Rightarrow> link_row list" where
  "link_rows_for chatId db = filter (\<lambda>r. chat_id r = chatId) (discord_link_v2 db)"

definition nick_keys :: "database \<Rightarrow> (jstring \<times> jstring) set" where
  "nick_keys db = (\<lambda>r. (nick_chat_id r, nick_user_id r)) ` set (discord_nick db)"

fun nick_key_of :: "store_call \<Rightarrow> (jstring \<times> jstring) option" where
  "nick_key_of (SetDiscordLink c d) = None"
| "nick_key_of (SetDiscordNickname c u n) = Some (c, u)"

section \<open>The Matrix adapter\<close>

subsection \<open>Messages and events\<close>

text \<open>
  The field \<open>text\<close> of the generic message shapes is \<open>body_text\<close> here. The object that
  \<open>sendMessage\<close> returns spreads the message to send and adds the fields of a sent message.
\<close>

record IWhoAmI =
  user_id :: jstring
  device_id :: "jstring option"

datatype media_type = MediaSticker | MediaPhoto | MediaVideo | MediaFile

fun media_type_name :: "media_type \<Rightarrow> jstring" where
  "media_type_name MediaSticker = ascii ''sticker''"
| "media_type_name MediaPhoto = ascii ''photo''"
| "media_type_name MediaVideo = ascii ''video''"
| "media_type_name MediaFile = ascii ''file''"

typedecl raw_extra

record MessageToSend =
  clientName :: jstring
  body_text :: jstring
  chatId :: jstring
  mediaType :: "media_type option"
  mediaUrl :: "jstring option"
  mediaMimeType :: "jstring option"
  mediaSize :: "jsnum option"
  messageIdReplied :: "jstring option"
  rawMessageExtra :: "raw_extra option"

record event_content =
  ev_body :: jstring
  ev_url :: "jstring option"
  ev_info_mimetype :: "jstring option"
  ev_info_size :: "jsnum option"
  ev_msgtype :: jstring
  ev_reply_to :: "jstring option"

record GenericMessage = MessageToSend +
  messageId :: jstring
  userId :: jstring
  userName :: jstring
  rawMessage :: "jstring \<times> jstring"
  rawUser :: IWhoAmI
  unixDate :: real

subsection \<open>The homeserver, the network and the client state\<close>

text \<open>
  The answers of the homeserver and of \<open>fetch\<close> are parameters, as are \<open>Number\<close> applied to
  a header value and the clock. Every request the adapter issues is recorded.
\<close>

record Resource =
  headers_get :: "jstring \<Rightarrow> jstring option"
  arrayBuffer :: "js_error + 8 word list"

datatype request =
    CreateMediaRequest
  | FetchRequest "jstring option"
  | UploadRequest jstring "8 word list" jstring
  | SendEventRequest jstring jstring event_content

record matrix_env =
  createMedia :: "js_error + jstring"
  fetch :: "jstring option \<Rightarrow> js_error + Resource"
  toNumber :: "jstring \<Rightarrow> jsnum"
  uploadPut :: "jstring \<Rightarrow> 8 word list \<Rightarrow> jstring \<Rightarrow> js_error + unit"
  sendEvent :: "jstring \<Rightarrow> jstring \<Rightarrow> event_content \<Rightarrow> js_error + jstring"
  dateNow :: real

record MatrixUserBotClient =
  matrixBotInfo :: "IWhoAmI option"
  cachedMedia :: "jstring option \<rightharpoonup> jstring"

subsection \<open>Uploading media\<close>

text \<open>
  Negation and comparison of a number, and the match of the pattern for \<open>mxc\<close> addresses:
  after the scheme, a server name up to the first slash and a media id that is not empty,
  with no line terminator anywhere.
\<close>

definition falsy :: "jsnum \<Rightarrow> bool" where
  "falsy n = (case n of NaN \<Rightarrow> True | Finite x \<Rightarrow> x = 0 | _ \<Rightarrow> False)"

definition greater :: "jsnum \<Rightarrow> real \<Rightarrow> bool" where
  "greater n limit = (case n of PosInfinity \<Rightarrow> True | Finite x \<Rightarrow> x > limit | _ \<Rightarrow> False)"

definition isLineTerminator :: "16 word \<Rightarrow> bool" where
  "isLineTerminator c \<longleftrightarrow> c = 0xA \<or> c = 0xD \<or> c = 0x2028 \<or> c = 0x2029"

definition mxc_exec :: "jstring \<Rightarrow> (jstring \<times> jstring) option" where
  "mxc_exec mxcUri =
     (if take 6 mxcUri = ascii ''mxc://'' then
        (let rest = drop 6 mxcUri;
             serverName = takeWhile (\<lambda>c. c \<noteq> 0x2F) rest;
             tail = dropWhile (\<lambda>c. c \<noteq> 0x2F) rest
         in if tail = [] \<or> tl tail = [] \<or> list_ex isLineTerminator rest then None
            else Some (serverName, tl tail))
      else None)"

text \<open>
  The background task that \<open>uploadMediaAsync\<close> starts and does not await: the requests it
  issues and how it ends. Only a task that ends in \<open>Stored\<close> writes the cache, when it ends.
\<close>

datatype task_end = Abandoned | Stored "jstring option" jstring | Crashed js_error

definition contentLength :: "matrix_env \<Rightarrow> Resource \<Rightarrow> jsnum" where
  "contentLength env resource =
     toNumber env
       (case headers_get resource (ascii ''Content-Length'') of
          Some v \<Rightarrow> v
        | None \<Rightarrow> (case headers_get resource (ascii ''content-length'') of
                     Some v \<Rightarrow> v
                   | None \<Rightarrow> ascii ''0''))"

definition contentType :: "Resource \<Rightarrow> jstring" where
  "contentType resource =
     (case headers_get resource (ascii ''Content-Type'') of
        Some v \<Rightarrow> v
      | None \<Rightarrow> (case headers_get resource (ascii ''content-type'') of
                   Some v \<Rightarrow> v
                 | None \<Rightarrow> ascii ''application/octet-stream''))"

definition uploadTask :: "matrix_env \<Rightarrow> jstring option \<Rightarrow> jstring \<Rightarrow> request list \<times> task_end" where
  "uploadTask env url mxcUri =
     (case fetch env url of
        Inl e \<Rightarrow> ([FetchRequest url], Crashed e)
      | Inr resource \<Rightarrow>
          if falsy (contentLength env resource) \<or> greater (contentLength env resource) (1024 * 1024)
          then ([FetchRequest url], Abandoned)
          else
            (case arrayBuffer resource of
               Inl e \<Rightarrow> ([FetchRequest url], Crashed e)
             | Inr buffer \<Rightarrow>
                 (case mxc_exec mxcUri of
                    None \<Rightarrow> ([FetchRequest url], Crashed TypeError)
                  | Some (serverName, mediaId) \<Rightarrow>
                      (let path = ascii ''/_matrix/media/v3/upload/'' @ serverName @ ascii ''/'' @ mediaId
                       in case uploadPut env path buffer (contentType resource) of
                            Inl e \<Rightarrow>
                              ([FetchRequest url, UploadRequest path buffer (contentType resource)],
                               Crashed e)
                          | Inr _ \<Rightarrow>
                              ([FetchRequest url, UploadRequest path buffer (contentType resource)],
                               Stored url mxcUri)))))"


text \<open>
  What a call gives its caller, the requests issued before it returns, and the background
  task it leaves behind, if any.
\<close>

record 'a outcome =
  returned :: "js_error + 'a"
  issued :: "request list"
  background :: "(request list \<times> task_end) option"

definition uploadMediaAsync :: "matrix_env \<Rightarrow> MatrixUserBotClient \<Rightarrow> jstring option \<Rightarrow> jstring outcome" where
  "uploadMediaAsync env client url =
     (case cachedMedia client url of
        Some mxcUri \<Rightarrow> \<lparr>returned = Inr mxcUri, issued = [], background = None\<rparr>
      | None \<Rightarrow>
          (case createMedia env of
             Inl e \<Rightarrow> \<lparr>returned = Inl e, issued = [CreateMediaRequest], background = None\<rparr>
           | Inr mxcUri \<Rightarrow>
               \<lparr>returned = Inr mxcUri, issued = [CreateMediaRequest],
                background = Some (uploadTask env url mxcUri)\<rparr>))"

text \<open>
  An optional string that is tested for truthiness: undefined and the empty string both
  count as absent.
\<close>

definition whenTruthy :: "jstring option \<Rightarrow> jstring option" where
  "whenTruthy v = (case v of None \<Rightarrow> None | Some s \<Rightarrow> if s \<noteq> [] then Some s else None)"

definition sendMessage :: "matrix_env \<Rightarrow> MatrixUserBotClient \<Rightarrow> MessageToSend \<Rightarrow> GenericMessage outcome" where
  "sendMessage env client message =
     (let isSupportedSticker =
            (mediaType message = Some MediaSticker \<and> mediaMimeType message = Some (ascii ''image/jpeg''));
          matrixMediaType =
            (if mediaType message = Some MediaSticker \<and> \<not> isSupportedSticker then Some MediaVideo
             else mediaType message);
          matrixEventType =
            (if matrixMediaType = Some MediaSticker then ascii ''m.sticker'' else ascii ''m.room.message'');
          upload =
            (case mediaType message of
               Some _ \<Rightarrow>
                 (let up = uploadMediaAsync env client (mediaUrl message)
                  in \<lparr>returned = map_sum id Some (returned up), issued = issued up,
                      background = background up\<rparr>)
             | None \<Rightarrow> \<lparr>returned = Inr None, issued = [], background = None\<rparr>)
      in case returned upload of
           Inl e \<Rightarrow> \<lparr>returned = Inl e, issued = issued upload, background = background upload\<rparr>
         | Inr mediaRef \<Rightarrow>
             (let matrixEventContent =
                    \<lparr>ev_body = body_text message, ev_url = mediaRef,
                     ev_info_mimetype = mediaMimeType message, ev_info_size = mediaSize message,
                     ev_msgtype = ascii ''m.'' @
                       (case matrixMediaType of None \<Rightarrow> ascii ''text'' | Some t \<Rightarrow> media_type_name t),
                     ev_reply_to = whenTruthy (messageIdReplied message)\<rparr>;
                  sent = issued upload @
                    [SendEventRequest (chatId message) matrixEventType matrixEventContent]
              in case sendEvent env (chatId message) matrixEventType matrixEventContent of
                   Inl e \<Rightarrow> \<lparr>returned = Inl e, issued = sent, background = background upload\<rparr>
                 | Inr newId \<Rightarrow>
                     (case matrixBotInfo client of
                        None \<Rightarrow>
                          \<lparr>returned = Inl TypeError, issued = sent, background = background upload\<rparr>
                      | Some info \<Rightarrow>
                          \<lparr>returned = Inr (MessageToSend.extend (message\<lparr>clientName := ascii ''matrix''\<rparr>)
                             (GenericMessage.fields newId (user_id info) (user_id info)
                                (newId, body_text message) info (dateNow env / 1000))),
                           issued = sent, background = background upload\<rparr>)))"

section \<open>Example values\<close>

definition plainMessage :: Message where
  "plainMessage =
     \<lparr>message_from = None, message_text = None, caption = None, forward_from = None, via_bot = None,
      audio = None, document = None, animation = None, photo = None, sticker = None,
      video = None, video_note = None, voice = None, contact = None, dice = None,
      game = None, poll = None, location = None, venue = None, reply_to_message = None\<rparr>"

definition bob :: User where
  "bob = \<lparr>first_name = Some (ascii ''Bob''), last_name = None, username = Some (ascii ''bob'')\<rparr>"

definition sampleNumToString :: "jsnum \<Rightarrow> jstring" where
  "sampleNumToString n = ascii ''0''"

definition plainReply :: ReplyMessage where
  "plainReply =
     \<lparr>message_from = None, message_text = None, caption = None, forward_from = None, via_bot = None,
      audio = None, document = None, animation = None, photo = None, sticker = None,
      video = None, video_note = None, voice = None, contact = None, dice = None,
      game = None, poll = None, location = None, venue = None\<rparr>"

definition botUser :: User where
  "botUser = \<lparr>first_name = Some (ascii ''Tie''), last_name = None, username = Some (ascii ''tietie_bot'')\<rparr>"

definition theBot :: IBot where
  "theBot = \<lparr>botInfo = Some botUser\<rparr>"

definition paddedUser :: User where
  "paddedUser = \<lparr>first_name = None, last_name = None, username = Some (ascii '' bob'')\<rparr>"

definition overLimitBody :: "8 word list" where
  "overLimitBody = replicate 2097152 0"

definition bigResource :: Resource where
  "bigResource =
     \<lparr>headers_get = (\<lambda>name. if name = ascii ''Content-Length'' then Some (ascii ''2097152'') else None),
      arrayBuffer = Inr overLimitBody\<rparr>"

definition understatedResource :: Resource where
  "understatedResource =
     \<lparr>headers_get = (\<lambda>name. if name = ascii ''Content-Length'' then Some (ascii ''3'') else None),
      arrayBuffer = Inr overLimitBody\<rparr>"

definition smallResource :: Resource where
  "smallResource =
     \<lparr>headers_get = (\<lambda>name. if name = ascii ''Content-Length'' then Some (ascii ''3'') else None),
      arrayBuffer = Inr [1, 2, 3]\<rparr>"

definition sampleEnv :: matrix_env where
  "sampleEnv =
     \<lparr>createMedia = Inr (ascii ''mxc://example.org/abc''),
      fetch = (\<lambda>url. if url = Some (ascii ''https://big'') then Inr bigResource
                     else if url = Some (ascii ''https://small'') then Inr smallResource
                     else if url = Some (ascii ''https://understated'') then Inr understatedResource
                     else Inl RequestFailed),
      toNumber = (\<lambda>s. if s = ascii ''2097152'' then Finite 2097152
                      else if s = ascii ''3'' then Finite 3 else NaN),
      uploadPut = (\<lambda>path buffer ctype. Inr ()),
      sendEvent = (\<lambda>chat ty content. Inr (ascii ''$event1'')),
      dateNow = 1700000000000\<rparr>"

definition sampleClient :: MatrixUserBotClient where
  "sampleClient =
     \<lparr>matrixBotInfo = Some \<lparr>user_id = ascii ''@tietie:matrix.org'', device_id = None\<rparr>,
      cachedMedia = Map.empty\<rparr>"

definition sampleMessage :: MessageToSend where
  "sampleMessage =
     \<lparr>clientName = ascii ''telegram'', body_text = ascii ''hello'', chatId = ascii ''!room:matrix.org'',
      mediaType = Some MediaPhoto, mediaUrl = Some (ascii ''https://big''), mediaMimeType = None,
      mediaSize = None, messageIdReplied = None, rawMessageExtra = None\<rparr>"

definition sampleDatabase :: database where
  "sampleDatabase =
     \<lparr>discord_link_v2 = [\<lparr>chat_id = ascii ''c1'', discord_channel_id = ascii ''d0''\<rparr>,
                         \<lparr>chat_id = ascii ''c2'', discord_channel_id = ascii ''d9''\<rparr>],
      discord_nick = []\<rparr>"

section \<open>Properties of the message describer\<close>

subsection \<open>Trimming and the parts of the description\<close>

lemma isWhiteSpace_colon [simp]: "\<not> isWhiteSpace 0x3A"
  by (simp add: isWhiteSpace_def)

lemma isWhiteSpace_space [simp]: "isWhiteSpace 0x20"
  by (simp add: isWhiteSpace_def)

lemma ascii_colon_space: "ascii '': '' = [0x3A, 0x20]"
  by (simp add: ascii_def)

lemma dropWhile_append_keep:
  "t \<noteq> [] \<Longrightarrow> \<not> P (hd t) \<Longrightarrow> dropWhile P (s @ t) = dropWhile P s @ t"
  by (induction s) (auto simp: neq_Nil_conv)

lemma trim_fixed:
  assumes "s \<noteq> []" and "\<not> isWhiteSpace (hd s)" and "\<not> isWhiteSpace (last s)"
  shows "trim s = s"
proof -
  from assms have "dropWhile isWhiteSpace s = s"
    by (cases s) auto
  moreover from assms have "dropWhile isWhiteSpace (rev s) = rev s"
    by (cases "rev s") (auto simp: hd_rev)
  ultimately show ?thesis by (simp add: trim_def)
qed

lemma trim_sender_colon:
  "trim (s @ ascii '': '') = dropWhile isWhiteSpace s @ ascii '':''"
proof -
  have "dropWhile isWhiteSpace (s @ [0x3A, 0x20]) = dropWhile isWhiteSpace s @ [0x3A, 0x20]"
    by (rule dropWhile_append_keep) simp_all
  then show ?thesis
    by (simp add: trim_def ascii_def)
qed

lemma describeKind_absent: "\<not> hasKind message k \<Longrightarrow> describeKind numToString message k = Str []"
  by (cases k) (auto simp: tryDescribe_def split: option.splits)

lemma describeKind_present:
  "hasKind message k \<Longrightarrow> element (describeKind numToString message k) \<noteq> []"
  by (cases k) (auto simp: tryDescribe_def element_def bracket_def ascii_def split: option.splits)

lemma concat_map_filter_empty:
  "(\<And>x. \<not> P x \<Longrightarrow> f x = []) \<Longrightarrow> concat (map f (filter P xs)) = concat (map f xs)"
  by (induction xs) auto

lemma describeMedia_present:
  "concat (map element (describeMedia numToString message)) =
     concat (map (\<lambda>k. element (describeKind numToString message k)) (filter (hasKind message) mediaKinds))"
proof -
  have "concat (map (\<lambda>k. element (describeKind numToString message k)) (filter (hasKind message) mediaKinds)) =
        concat (map (\<lambda>k. element (describeKind numToString message k)) mediaKinds)"
    by (rule concat_map_filter_empty) (simp add: describeKind_absent element_def)
  then show ?thesis by (simp add: describeMedia_def comp_def)
qed

lemma describeMedia_none:
  assumes "noCapabilities message"
  shows "concat (map element (describeMedia numToString message)) = []"
proof -
  from assms have "filter (hasKind message) mediaKinds = []"
    by (auto simp: noCapabilities_def filter_empty_conv list_all_iff)
  then show ?thesis by (simp add: describeMedia_present)
qed

lemma describe_context_none:
  assumes "noCapabilities message"
  shows "describeForward ibot message = Inr []" and "describeReply ibot message = Inr []"
    and "describeViaBot message = Inr []"
  using assms
  by (simp_all add: noCapabilities_def describeForward_def describeReply_def describeViaBot_def
        tryDescribe_def await_def)

lemma tryDescribeMessage_plain:
  assumes "noCapabilities message"
  shows "tryDescribeMessage numToString message ibot userFormatter =
           Inr (trim (or_empty (userFormatter (case message_from message of None \<Rightarrow> emptyUser | Some u \<Rightarrow> u))
                      @ ascii '': '' @ describeBody message))"
  using assms
  by (simp add: tryDescribeMessage_def Let_def describe_context_none describeMedia_none)

lemma describeViaBot_total: "\<exists>via. describeViaBot message = Inr via"
  by (simp add: describeViaBot_def tryDescribe_def await_def split: option.splits)

lemma tryDescribeMessage_Inr:
  assumes "tryDescribeMessage numToString message ibot userFormatter = Inr out"
  shows "\<exists>forwarded replied via.
           describeForward ibot message = Inr forwarded \<and>
           describeReply ibot message = Inr replied \<and>
           describeViaBot message = Inr via \<and>
           out = trim (or_empty (userFormatter (case message_from message of None \<Rightarrow> emptyUser | Some u \<Rightarrow> u))
                       @ ascii '': '' @ forwarded @ replied @ via
                       @ concat (map element (describeMedia numToString message))
                       @ describeBody message)"
  using assms
  by (auto simp: tryDescribeMessage_def Let_def split: sum.splits)

lemma split_first_before_separator:
  assumes "str_includes t sep" and "sep \<noteq> []"
  shows "\<exists>rest. t = split_first t sep @ sep @ rest"
  using assms
proof (induction t)
  case Nil
  then show ?case by simp
next
  case (Cons c cs)
  show ?case
  proof (cases "take (length sep) (c # cs) = sep")
    case True
    then have "c # cs = sep @ drop (length sep) (c # cs)"
      by (metis append_take_drop_id)
    with True show ?thesis by auto
  next
    case False
    with Cons.prems have "str_includes cs sep" by simp
    with Cons.IH Cons.prems obtain rest where "cs = split_first cs sep @ sep @ rest"
      by blast
    with False show ?thesis by auto
  qed
qed

subsection \<open>Media fragments\<close>

lemma document_fragment_plain:
  "element (describeKind numToString (message\<lparr>document := Some file\<rparr>) DocumentKind) =
     [0x6587, 0x4EF6, 0xFF1A] @
     (case file_name file of None \<Rightarrow> [0x672A, 0x77E5, 0x6587, 0x4EF6] | Some n \<Rightarrow> n)"
  by (simp add: tryDescribe_def element_def)

text \<open>
  C1: a message with a \<open>document\<close> should show the bracketed fragment made of the label
  U+6587 U+4EF6 U+FF1A and the file name, followed by a space. The descriptor of a document
  is a function that returns a plain string, and \<open>tryDescribe\<close> hands such a result back
  without brackets or space: for the sender Bob and the file \<open>a.pdf\<close> the output ends in the
  bare label and name, and the bracketed fragment does not occur in it. With the file name
  absent the placeholder U+672A U+77E5 U+6587 U+4EF6 is shown, again without brackets.
\<close>

theorem document_fragment_not_bracketed:
  "tryDescribeMessage sampleNumToString
     (plainMessage\<lparr>message_from := Some bob,
                    document := Some \<lparr>file_name = Some (ascii ''a.pdf'')\<rparr>\<rparr>) theBot formatUser =
     Inr (ascii ''Bob: '' @ [0x6587, 0x4EF6, 0xFF1A] @ ascii ''a.pdf'')
   \<and> \<not> str_includes (ascii ''Bob: '' @ [0x6587, 0x4EF6, 0xFF1A] @ ascii ''a.pdf'')
          (ascii ''['' @ [0x6587, 0x4EF6, 0xFF1A] @ ascii ''a.pdf] '')
   \<and> tryDescribeMessage sampleNumToString
     (plainMessage\<lparr>message_from := Some bob, document := Some \<lparr>file_name = None\<rparr>\<rparr>) theBot formatUser =
     Inr (ascii ''Bob: '' @ [0x6587, 0x4EF6, 0xFF1A, 0x672A, 0x77E5, 0x6587, 0x4EF6])"
  by code_simp

text \<open>
  C2, as stated: when several media properties are present only the first in the order is
  described. A message with both \<open>audio\<close> and \<open>photo\<close> shows the audio fragment and the
  photo fragment.
\<close>

theorem first_media_kind_wins_counterexample:
  "tryDescribeMessage sampleNumToString
     (plainMessage\<lparr>message_from := Some bob, audio := Some (), photo := Some ()\<rparr>) theBot formatUser =
     Inr (ascii ''Bob: ['' @ [0x97F3, 0x9891] @ ascii ''] ['' @ [0x56FE, 0x7247] @ ascii '']'')
   \<and> str_includes (ascii ''Bob: ['' @ [0x97F3, 0x9891] @ ascii ''] ['' @ [0x56FE, 0x7247] @ ascii '']'')
         (ascii ''['' @ [0x97F3, 0x9891] @ ascii ''] '')
   \<and> str_includes (ascii ''Bob: ['' @ [0x97F3, 0x9891] @ ascii ''] ['' @ [0x56FE, 0x7247] @ ascii '']'')
         (ascii ''['' @ [0x56FE, 0x7247] @ ascii '']'')"
  by code_simp

text \<open>
  C2, amended: whenever the describer returns, its output is the trimmed concatenation of
  the sender, the separator, the context fragments, the fragment of every media property
  that is present, in the fixed order, and the body; every present media property has a
  fragment that is not empty, and an absent one contributes nothing.
\<close>

theorem media_kinds_all_rendered:
  assumes "tryDescribeMessage numToString message ibot userFormatter = Inr out"
  shows "(\<exists>forwarded replied via.
            describeForward ibot message = Inr forwarded \<and>
            describeReply ibot message = Inr replied \<and>
            describeViaBot message = Inr via \<and>
            out = trim (or_empty (userFormatter (case message_from message of None \<Rightarrow> emptyUser | Some u \<Rightarrow> u))
                        @ ascii '': '' @ forwarded @ replied @ via
                        @ concat (map (\<lambda>k. element (describeKind numToString message k))
                                    (filter (hasKind message) mediaKinds))
                        @ describeBody message))
         \<and> (\<forall>k. hasKind message k \<longrightarrow> element (describeKind numToString message k) \<noteq> [])"
  using tryDescribeMessage_Inr [OF assms] describeKind_present
  by (simp add: describeMedia_present)

theorem media_kinds_all_rendered_witness:
  "tryDescribeMessage sampleNumToString
     (plainMessage\<lparr>message_from := Some bob, animation := Some (), video := Some ()\<rparr>) theBot formatUser =
     Inr (ascii ''Bob: [GIF] ['' @ [0x89C6, 0x9891] @ ascii '']'')
   \<and> element (describeKind sampleNumToString
         (plainMessage\<lparr>message_from := Some bob, animation := Some (), video := Some ()\<rparr>) AnimationKind) \<noteq> []
   \<and> element (describeKind sampleNumToString
         (plainMessage\<lparr>message_from := Some bob, animation := Some (), video := Some ()\<rparr>) VideoKind) \<noteq> []"
proof -
  let ?m = "plainMessage\<lparr>message_from := Some bob, animation := Some (), video := Some ()\<rparr>"
  have run: "tryDescribeMessage sampleNumToString ?m theBot formatUser =
     Inr (ascii ''Bob: [GIF] ['' @ [0x89C6, 0x9891] @ ascii '']'')"
    by code_simp
  have "hasKind ?m AnimationKind" and "hasKind ?m VideoKind"
    by (simp_all add: plainMessage_def)
  with media_kinds_all_rendered [OF run] run show ?thesis by blast
qed

subsection \<open>Replies to the bot\<close>

text \<open>
  C3: the describer should return a string for every combination of present and absent
  optional fields. For a reply to a message of the bot itself that has a photo and no text,
  reading \<open>text.includes\<close> fails and the describer raises a \<open>TypeError\<close>.
\<close>

theorem reply_to_bot_without_text_raises:
  "tryDescribeMessage sampleNumToString
     (plainMessage\<lparr>message_from := Some bob, message_text := Some (ascii ''nice one''),
        reply_to_message := Some (plainReply\<lparr>message_from := Some botUser, photo := Some ()\<rparr>)\<rparr>)
     theBot formatUser = Inl TypeError"
  by code_simp

text \<open>
  C4: when the replied-to message was sent by the bot itself and its text is
  \<open>Alice: hello\<close>, the reply fragment is the bracketed label U+56DE U+590D U+7ED9 U+FF1A with
  the name \<open>Alice\<close>, the part of the text before the first separator, followed by a space.
  If the message has no \<open>forward_from\<close>, the describer returns, with this fragment right
  after the separator that follows the sender.
\<close>

theorem reply_to_bot_unwraps_name:
  assumes "reply_to_message message = Some replied"
      and "message_from replied = Some sender"
      and "botInfo ibot = Some info"
      and "username sender = username info"
      and "message_text replied = Some (ascii ''Alice: hello'')"
  shows "describeReply ibot message =
           Inr (ascii ''['' @ [0x56DE, 0x590D, 0x7ED9, 0xFF1A] @ ascii ''Alice] '')
         \<and> (forward_from message = None \<longrightarrow>
              (\<exists>via. describeViaBot message = Inr via \<and>
                 tryDescribeMessage numToString message ibot userFormatter =
                   Inr (trim (or_empty (userFormatter (case message_from message of None \<Rightarrow> emptyUser | Some u \<Rightarrow> u))
                              @ ascii '': ''
                              @ (ascii ''['' @ [0x56DE, 0x590D, 0x7ED9, 0xFF1A] @ ascii ''Alice] '')
                              @ via
                              @ concat (map element (describeMedia numToString message))
                              @ describeBody message))))"
proof -
  have inc: "str_includes (ascii ''Alice: hello'') (ascii '': '')"
    by code_simp
  have spl: "split_first (ascii ''Alice: hello'') (ascii '': '') = ascii ''Alice''"
    by code_simp
  have name: "tryExtractUserFromMessage ibot replied = Inr (Some (ascii ''Alice''))"
    using assms inc spl by (simp add: tryExtractUserFromMessage_def)
  have frag: "describeReply ibot message =
           Inr (ascii ''['' @ [0x56DE, 0x590D, 0x7ED9, 0xFF1A] @ ascii ''Alice] '')"
    using assms(1) name
    by (simp add: describeReply_def tryDescribe_def await_def bracket_def interpolate_def ascii_def)
  obtain via where via: "describeViaBot message = Inr via"
    using describeViaBot_total by blast
  have "forward_from message = None \<Longrightarrow> describeForward ibot message = Inr []"
    by (simp add: describeForward_def tryDescribe_def await_def)
  with frag via show ?thesis
    by (simp add: tryDescribeMessage_def Let_def)
qed

theorem reply_to_bot_unwraps_name_witness:
  "describeReply theBot
     (plainMessage\<lparr>message_from := Some bob, message_text := Some (ascii ''hi''),
        reply_to_message := Some (plainReply\<lparr>message_from := Some botUser,
                                               message_text := Some (ascii ''Alice: hello'')\<rparr>)\<rparr>) =
     Inr (ascii ''['' @ [0x56DE, 0x590D, 0x7ED9, 0xFF1A] @ ascii ''Alice] '')"
  using reply_to_bot_unwraps_name
    [of "plainMessage\<lparr>message_from := Some bob, message_text := Some (ascii ''hi''),
        reply_to_message := Some (plainReply\<lparr>message_from := Some botUser,
                                               message_text := Some (ascii ''Alice: hello'')\<rparr>)\<rparr>"
        "plainReply\<lparr>message_from := Some botUser, message_text := Some (ascii ''Alice: hello'')\<rparr>"
        botUser theBot botUser]
  by (simp add: plainMessage_def plainReply_def theBot_def botUser_def)

subsection \<open>Messages without optional capabilities\<close>

text \<open>
  C5, as stated: for a message with a sender, a text and no optional capability the output
  is the formatted sender, the separator and the text. For the text \<open>hi\<close> followed by a
  space the output is \<open>Bob: hi\<close>, without the space.
\<close>

theorem plain_text_output_counterexample:
  "noCapabilities (plainMessage\<lparr>message_from := Some bob, message_text := Some (ascii ''hi '')\<rparr>)
   \<and> tryDescribeMessage sampleNumToString
         (plainMessage\<lparr>message_from := Some bob, message_text := Some (ascii ''hi '')\<rparr>) theBot formatUser
       \<noteq> Inr (or_empty (formatUser bob) @ ascii '': '' @ ascii ''hi '')"
  by code_simp

text \<open>
  C5, amended: for a message with a sender, a text and no optional capability the output
  is the formatted sender, the separator and the text, trimmed, and nothing else. It is
  exactly the formatted sender, the separator and the text when the formatted sender does
  not begin with white space and the text is not empty and does not end with white space.
\<close>

theorem plain_text_output:
  assumes "noCapabilities message"
      and "message_from message = Some sender"
      and "message_text message = Some t"
  shows "tryDescribeMessage numToString message ibot userFormatter =
           Inr (trim (or_empty (userFormatter sender) @ ascii '': '' @ t))
         \<and> ((or_empty (userFormatter sender) = [] \<or> \<not> isWhiteSpace (hd (or_empty (userFormatter sender))))
              \<and> t \<noteq> [] \<and> \<not> isWhiteSpace (last t) \<longrightarrow>
            tryDescribeMessage numToString message ibot userFormatter =
              Inr (or_empty (userFormatter sender) @ ascii '': '' @ t))"
proof -
  let ?s = "or_empty (userFormatter sender)"
  have run: "tryDescribeMessage numToString message ibot userFormatter = Inr (trim (?s @ ascii '': '' @ t))"
    using assms by (simp add: tryDescribeMessage_plain describeBody_def)
  have "trim (?s @ ascii '': '' @ t) = ?s @ ascii '': '' @ t"
    if "?s = [] \<or> \<not> isWhiteSpace (hd ?s)" and "t \<noteq> []" and "\<not> isWhiteSpace (last t)"
  proof (rule trim_fixed)
    show "?s @ ascii '': '' @ t \<noteq> []" using that by simp
    show "\<not> isWhiteSpace (hd (?s @ ascii '': '' @ t))"
      using that by (cases ?s) (simp_all add: ascii_colon_space)
    show "\<not> isWhiteSpace (last (?s @ ascii '': '' @ t))"
      using that by simp
  qed
  with run show ?thesis by simp
qed

theorem plain_text_output_witness:
  "tryDescribeMessage sampleNumToString
     (plainMessage\<lparr>message_from := Some bob, message_text := Some (ascii ''hello'')\<rparr>) theBot formatUser =
     Inr (ascii ''Bob: hello'')"
  using plain_text_output
    [of "plainMessage\<lparr>message_from := Some bob, message_text := Some (ascii ''hello'')\<rparr>"
        bob "ascii ''hello''" sampleNumToString theBot formatUser]
  by (simp add: noCapabilities_def mediaKinds_def plainMessage_def bob_def formatUser_def
        or_empty_def trim_def isWhiteSpace_def ascii_def)

text \<open>
  C6, as stated: for a message with no optional capability and neither text nor caption the
  output is the formatted sender followed by a colon. For a sender whose only name is the
  username \<open>bob\<close> preceded by a space, the output is \<open>bob:\<close> without the leading space.
\<close>

theorem empty_message_output_counterexample:
  "noCapabilities (plainMessage\<lparr>message_from := Some paddedUser\<rparr>)
   \<and> tryDescribeMessage sampleNumToString (plainMessage\<lparr>message_from := Some paddedUser\<rparr>) theBot formatUser
       \<noteq> Inr (or_empty (formatUser paddedUser) @ ascii '':'')"
  by code_simp

text \<open>
  C6, amended: for a message with no optional capability and neither text nor caption the
  output is the formatted sender without its leading white space, followed by a colon. It is
  exactly the formatted sender followed by a colon when the formatted sender does not begin
  with white space.
\<close>

theorem empty_message_output:
  assumes "noCapabilities message"
      and "message_text message = None"
      and "caption message = None"
  shows "tryDescribeMessage numToString message ibot userFormatter =
           Inr (dropWhile isWhiteSpace
                  (or_empty (userFormatter (case message_from message of None \<Rightarrow> emptyUser | Some u \<Rightarrow> u)))
                @ ascii '':'')
         \<and> (or_empty (userFormatter (case message_from message of None \<Rightarrow> emptyUser | Some u \<Rightarrow> u)) = [] \<or>
             \<not> isWhiteSpace (hd (or_empty (userFormatter (case message_from message of None \<Rightarrow> emptyUser | Some u \<Rightarrow> u))))
             \<longrightarrow>
             tryDescribeMessage numToString message ibot userFormatter =
               Inr (or_empty (userFormatter (case message_from message of None \<Rightarrow> emptyUser | Some u \<Rightarrow> u))
                    @ ascii '':''))"
proof -
  let ?s = "or_empty (userFormatter (case message_from message of None \<Rightarrow> emptyUser | Some u \<Rightarrow> u))"
  have run: "tryDescribeMessage numToString message ibot userFormatter =
      Inr (dropWhile isWhiteSpace ?s @ ascii '':'')"
    using assms trim_sender_colon [of ?s]
    by (simp add: tryDescribeMessage_plain describeBody_def)
  have "dropWhile isWhiteSpace ?s = ?s" if "?s = [] \<or> \<not> isWhiteSpace (hd ?s)"
    using that by (cases ?s) auto
  with run show ?thesis by simp
qed

theorem empty_message_output_witness:
  "tryDescribeMessage sampleNumToString (plainMessage\<lparr>message_from := Some bob\<rparr>) theBot formatUser =
     Inr (ascii ''Bob:'')"
  using empty_message_output
    [of "plainMessage\<lparr>message_from := Some bob\<rparr>" sampleNumToString theBot formatUser]
  by (simp add: noCapabilities_def mediaKinds_def plainMessage_def bob_def formatUser_def
        or_empty_def trim_def isWhiteSpace_def ascii_def)

section \<open>Properties of the link and nickname store\<close>

lemma find_None_filter: "find P xs = None \<longleftrightarrow> filter P xs = []"
  by (induction xs) auto

lemma link_rows_for_insert:
  assumes "find (\<lambda>r. chat_id r = c) (discord_link_v2 db) = None"
  shows "link_rows_for k (setDiscordLink c d db) =
           (if k = c then [\<lparr>chat_id = c, discord_channel_id = d\<rparr>] else link_rows_for k db)"
proof -
  from assms have "filter (\<lambda>r. chat_id r = c) (discord_link_v2 db) = []"
    by (simp add: find_None_filter)
  then show ?thesis
    by (auto simp: setDiscordLink_def link_rows_for_def assms)
qed

lemma filter_map_update:
  "filter (\<lambda>r. chat_id r = k) (map (\<lambda>r. if chat_id r = c then r\<lparr>discord_channel_id := d\<rparr> else r) xs) =
     (if k = c then map (\<lambda>r. r\<lparr>discord_channel_id := d\<rparr>) (filter (\<lambda>r. chat_id r = c) xs)
      else filter (\<lambda>r. chat_id r = k) xs)"
  by (induction xs) auto

lemma link_rows_for_update:
  assumes "find (\<lambda>r. chat_id r = c) (discord_link_v2 db) = Some e"
  shows "link_rows_for k (setDiscordLink c d db) =
           (if k = c then map (\<lambda>r. r\<lparr>discord_channel_id := d\<rparr>) (link_rows_for c db) else link_rows_for k db)"
  using assms by (simp add: setDiscordLink_def link_rows_for_def filter_map_update)

lemma link_rows_length:
  "length (link_rows_for k db) \<le> 1 \<Longrightarrow> length (link_rows_for k (setDiscordLink c d db)) \<le> 1"
  by (cases "find (\<lambda>r. chat_id r = c) (discord_link_v2 db)")
     (auto simp: link_rows_for_insert link_rows_for_update)

lemma link_rows_after_set:
  assumes "length (link_rows_for c db) \<le> 1"
  shows "link_rows_for c (setDiscordLink c d db) = [\<lparr>chat_id = c, discord_channel_id = d\<rparr>]"
proof (cases "find (\<lambda>r. chat_id r = c) (discord_link_v2 db)")
  case None
  then show ?thesis by (simp add: link_rows_for_insert)
next
  case (Some e)
  then have ne: "link_rows_for c db \<noteq> []"
    by (auto simp: link_rows_for_def find_None_filter [symmetric])
  with assms obtain r where r: "link_rows_for c db = [r]"
    by (cases "link_rows_for c db") auto
  then have "r \<in> set (link_rows_for c db)" by simp
  then have "chat_id r = c" by (simp add: link_rows_for_def)
  with r Some show ?thesis by (auto simp add: link_rows_for_update)
qed

lemma nick_keys_set: "nick_keys (setDiscordNickname c u n db) \<subseteq> insert (c, u) (nick_keys db)"
  by (auto simp: nick_keys_def setDiscordNickname_def split: option.splits)

lemma nick_keys_link [simp]: "nick_keys (setDiscordLink c d db) = nick_keys db"
  by (simp add: nick_keys_def setDiscordLink_def split: option.splits)

lemma nick_keys_run_call:
  "nick_keys (run_call x db) \<subseteq> {k. nick_key_of x = Some k} \<union> nick_keys db"
  using nick_keys_set by (cases x) auto

lemma nick_keys_run_calls:
  "nick_keys (run_calls calls db) \<subseteq> {k. Some k \<in> nick_key_of ` set calls} \<union> nick_keys db"
proof (induction calls arbitrary: db)
  case Nil
  show ?case by simp
next
  case (Cons x xs)
  have "nick_keys (run_calls (x # xs) db) \<subseteq> {k. Some k \<in> nick_key_of ` set xs} \<union> nick_keys (run_call x db)"
    using Cons [of "run_call x db"] by simp
  also have "\<dots> \<subseteq> {k. Some k \<in> nick_key_of ` set xs} \<union> ({k. nick_key_of x = Some k} \<union> nick_keys db)"
    using nick_keys_run_call [of x db] by blast
  also have "\<dots> \<subseteq> {k. Some k \<in> nick_key_of ` set (x # xs)} \<union> nick_keys db"
    by force
  finally show ?case .
qed

lemma getDiscordNickname_absent:
  "(c, u) \<notin> nick_keys db \<Longrightarrow> getDiscordNickname c u db = None"
  by (auto simp: nick_keys_def getDiscordNickname_def find_None_filter filter_empty_conv split: option.splits)

text \<open>
  C7: starting from a table with at most one row for a chat id, two calls of
  \<open>setDiscordLink\<close> for that chat id, one after the other, leave exactly one row for it, with
  the channel id of the second call; and any call of \<open>setDiscordLink\<close> keeps every chat id
  that had at most one row at no more than one row.
\<close>

theorem setDiscordLink_twice:
  assumes "length (link_rows_for chat db) \<le> 1"
  shows "link_rows_for chat (setDiscordLink chat d2 (setDiscordLink chat d1 db)) =
           [\<lparr>chat_id = chat, discord_channel_id = d2\<rparr>]
         \<and> (\<forall>k c d. length (link_rows_for k db) \<le> 1 \<longrightarrow>
               length (link_rows_for k (setDiscordLink c d db)) \<le> 1)"
proof (intro conjI allI impI)
  have "length (link_rows_for chat (setDiscordLink chat d1 db)) \<le> 1"
    using assms by (rule link_rows_length)
  then show "link_rows_for chat (setDiscordLink chat d2 (setDiscordLink chat d1 db)) =
           [\<lparr>chat_id = chat, discord_channel_id = d2\<rparr>]"
    by (rule link_rows_after_set)
next
  fix k c d
  assume "length (link_rows_for k db) \<le> 1"
  then show "length (link_rows_for k (setDiscordLink c d db)) \<le> 1"
    by (rule link_rows_length)
qed

theorem setDiscordLink_twice_witness:
  "length (link_rows_for (ascii ''c1'') sampleDatabase) \<le> 1
   \<and> link_rows_for (ascii ''c1'')
         (setDiscordLink (ascii ''c1'') (ascii ''d2'') (setDiscordLink (ascii ''c1'') (ascii ''d1'') sampleDatabase)) =
       [\<lparr>chat_id = ascii ''c1'', discord_channel_id = ascii ''d2''\<rparr>]
   \<and> length (link_rows_for (ascii ''c2'') (setDiscordLink (ascii ''c3'') (ascii ''d3'') sampleDatabase)) \<le> 1"
proof -
  have one: "length (link_rows_for (ascii ''c1'') sampleDatabase) \<le> 1"
    by (simp add: link_rows_for_def sampleDatabase_def ascii_def)
  have two: "length (link_rows_for (ascii ''c2'') sampleDatabase) \<le> 1"
    by (simp add: link_rows_for_def sampleDatabase_def ascii_def)
  from setDiscordLink_twice [OF one, of "ascii ''d2''" "ascii ''d1''"] one two show ?thesis
    by blast
qed

text \<open>
  C8: after any history of writes to the freshly created tables in which
  \<open>setDiscordNickname\<close> was never called for a pair of chat id and user id,
  \<open>getDiscordNickname\<close> for that pair yields the absent value; it has no failing branch.
\<close>

theorem getDiscordNickname_without_set:
  assumes "Some (chat, member) \<notin> nick_key_of ` set calls"
  shows "getDiscordNickname chat member (run_calls calls create_tables) = None"
proof -
  have "nick_keys create_tables = {}"
    by (simp add: nick_keys_def create_tables_def)
  then have "(chat, member) \<notin> nick_keys (run_calls calls create_tables)"
    using nick_keys_run_calls [of calls create_tables] assms by auto
  then show ?thesis by (rule getDiscordNickname_absent)
qed

theorem getDiscordNickname_without_set_witness:
  "getDiscordNickname (ascii ''c1'') (ascii ''u2'')
     (run_calls [SetDiscordNickname (ascii ''c1'') (ascii ''u1'') (ascii ''Bob''),
                 SetDiscordLink (ascii ''c1'') (ascii ''d1''),
                 SetDiscordNickname (ascii ''c2'') (ascii ''u2'') (ascii ''Eve'')] create_tables) = None"
  using getDiscordNickname_without_set
    [of "ascii ''c1''" "ascii ''u2''"
        "[SetDiscordNickname (ascii ''c1'') (ascii ''u1'') (ascii ''Bob''),
          SetDiscordLink (ascii ''c1'') (ascii ''d1''),
          SetDiscordNickname (ascii ''c2'') (ascii ''u2'') (ascii ''Eve'')]"]
  by (simp add: ascii_def)

section \<open>Properties of the Matrix adapter\<close>




lemma sendMessage_returned:
  assumes "returned (sendMessage env client message) = Inr sent"
  shows "clientName sent = ascii ''matrix'' \<and>
         (\<exists>info. matrixBotInfo client = Some info \<and> userId sent = user_id info \<and> userName sent = user_id info)"
  using assms
  by (auto simp: sendMessage_def Let_def MessageToSend.extend_def GenericMessage.fields_def
           split: sum.splits option.splits)




text \<open>
  C10: whatever \<open>clientName\<close> the message to send carries, a message that \<open>sendMessage\<close>
  returns has the client name \<open>matrix\<close>, and its user id and user name are both the user id
  of the bot. It does return one whenever the bot's identity is known, the event is sent
  and, for a message with media, the media address is cached or can be created.
\<close>

theorem sendMessage_identity:
  "(returned (sendMessage env client message) = Inr sent \<longrightarrow>
      clientName sent = ascii ''matrix'' \<and>
      (\<exists>info. matrixBotInfo client = Some info \<and>
              userId sent = user_id info \<and> userName sent = user_id info))
   \<and> (matrixBotInfo client = Some info \<and>
        (\<forall>ty content. \<exists>newId. sendEvent env (chatId message) ty content = Inr newId) \<and>
        (mediaType message = None \<or> cachedMedia client (mediaUrl message) \<noteq> None \<or>
         (\<exists>mxcUri. createMedia env = Inr mxcUri)) \<longrightarrow>
        (\<exists>sent'. returned (sendMessage env client message) = Inr sent'))"
proof (rule conjI)
  show "returned (sendMessage env client message) = Inr sent \<longrightarrow>
      clientName sent = ascii ''matrix'' \<and>
      (\<exists>info. matrixBotInfo client = Some info \<and>
              userId sent = user_id info \<and> userName sent = user_id info)"
    using sendMessage_returned by blast
next
  show "matrixBotInfo client = Some info \<and>
        (\<forall>ty content. \<exists>newId. sendEvent env (chatId message) ty content = Inr newId) \<and>
        (mediaType message = None \<or> cachedMedia client (mediaUrl message) \<noteq> None \<or>
         (\<exists>mxcUri. createMedia env = Inr mxcUri)) \<longrightarrow>
        (\<exists>sent'. returned (sendMessage env client message) = Inr sent')"
  proof (rule impI)
    assume a: "matrixBotInfo client = Some info \<and>
        (\<forall>ty content. \<exists>newId. sendEvent env (chatId message) ty content = Inr newId) \<and>
        (mediaType message = None \<or> cachedMedia client (mediaUrl message) \<noteq> None \<or>
         (\<exists>mxcUri. createMedia env = Inr mxcUri))"
    then have up: "mediaType message \<noteq> None \<Longrightarrow>
        \<exists>m. returned (uploadMediaAsync env client (mediaUrl message)) = Inr m"
      by (auto simp: uploadMediaAsync_def split: option.splits sum.splits)
    from a have ev: "\<And>ty content. \<exists>newId. sendEvent env (chatId message) ty content = Inr newId"
      by blast
    show "\<exists>sent'. returned (sendMessage env client message) = Inr sent'"
    proof (cases "mediaType message")
      case None
      with a ev show ?thesis
        by (simp add: sendMessage_def Let_def split: sum.splits) (metis sum.distinct(1) sum.exhaust)
    next
      case (Some t)
      with up obtain m where "returned (uploadMediaAsync env client (mediaUrl message)) = Inr m"
        by auto
      with Some a ev show ?thesis
        by (simp add: sendMessage_def Let_def split: sum.splits) (metis sum.distinct(1) sum.exhaust)
    qed
  qed
qed

theorem sendMessage_identity_witness:
  "\<exists>sent. returned (sendMessage sampleEnv sampleClient sampleMessage) = Inr sent \<and>
      clientName sampleMessage = ascii ''telegram'' \<and>
      clientName sent = ascii ''matrix'' \<and> userId sent = ascii ''@tietie:matrix.org'' \<and>
      userName sent = ascii ''@tietie:matrix.org''"
proof -
  have "\<exists>sent'. returned (sendMessage sampleEnv sampleClient sampleMessage) = Inr sent'"
    using sendMessage_identity
      [of sampleEnv sampleClient sampleMessage _ "\<lparr>user_id = ascii ''@tietie:matrix.org'', device_id = None\<rparr>"]
    by (simp add: sampleEnv_def sampleClient_def sampleMessage_def)
  then obtain sent where r: "returned (sendMessage sampleEnv sampleClient sampleMessage) = Inr sent"
    by blast
  with sendMessage_identity [of sampleEnv sampleClient sampleMessage sent]
  have "clientName sent = ascii ''matrix'' \<and> userId sent = ascii ''@tietie:matrix.org'' \<and>
      userName sent = ascii ''@tietie:matrix.org''"
    by (auto simp: sampleClient_def)
  with r show ?thesis by (auto simp: sampleMessage_def)
qed

end
